theory Spec2Isabelle
  imports Main "HOL-Library.Sublist"
begin

section \<open>Early initialisation of qutebrowser: qutebrowser/utils/earlyinit.py\<close>

text \<open>
  The module holds five functions that run, in the order of the file, before anything of
  Qt is imported. Each of them reads values of the interpreter (\<open>sys.hexversion\<close>,
  \<open>sys.platform\<close>, \<open>sys.argv\<close>, \<open>sys.stderr\<close>, the modules that can be imported)
  and acts on the process: it prints, sets an environment variable, calls into
  \<open>faulthandler\<close> or Qt, or leaves through \<open>sys.exit\<close>. The values read are the fields of
  a record \<open>host\<close>; the process is a record \<open>world\<close> that every function takes and
  returns, together with the way the call ended.
\<close>

subsection \<open>Python's string operations used by the module\<close>

text \<open>\<open>s.startswith(p)\<close>.\<close>

fun startswith :: "string \<Rightarrow> string \<Rightarrow> bool" where
  "startswith s [] = True"
| "startswith [] (p # ps) = False"
| "startswith (c # cs) (p # ps) = (c = p \<and> startswith cs ps)"

text \<open>\<open>t in s\<close> for two strings: \<open>t\<close> occurs in \<open>s\<close> as a contiguous piece.\<close>

fun contains :: "string \<Rightarrow> string \<Rightarrow> bool" where
  "contains [] t = (t = [])"
| "contains (c # cs) t = (startswith (c # cs) t \<or> contains cs t)"

text \<open>\<open>sep.join(xs)\<close>.\<close>

fun join :: "string \<Rightarrow> string list \<Rightarrow> string" where
  "join sep [] = []"
| "join sep [x] = x"
| "join sep (x # y # ys) = x @ sep @ join sep (y # ys)"

text \<open>\<open>str(n)\<close> for an integer: decimal digits, with a minus sign below zero.\<close>

fun str_nat :: "nat \<Rightarrow> string" where
  "str_nat n =
     (if n < 10 then [''0123456789'' ! n]
      else str_nat (n div 10) @ [''0123456789'' ! (n mod 10)])"

definition str :: "int \<Rightarrow> string" where
  "str i = (if i < 0 then CHR ''-'' # str_nat (nat (- i)) else str_nat (nat i))"

text \<open>
  What \<open>template.format(arg)\<close> gives, on an interpreter that accepts the template, for
  a template with one replacement field \<open>{}\<close>: the first \<open>{}\<close> is replaced by the
  argument. Which interpreters accept it is part of \<open>str_format\<close> below.
\<close>

fun format1 :: "string \<Rightarrow> string \<Rightarrow> string" where
  "format1 [] a = []"
| "format1 [c] a = [c]"
| "format1 (c # d # cs) a =
     (if c = CHR ''{'' \<and> d = CHR ''}'' then a @ cs else c # format1 (d # cs) a)"

text \<open>\<open>s.split('\n')\<close>: the lines of a text, without their line ends.\<close>

fun split_nl :: "string \<Rightarrow> string list" where
  "split_nl [] = [[]]"
| "split_nl (c # cs) =
     (if c = CHR ''\<newline>'' then [] # split_nl cs
      else (case split_nl cs of [] \<Rightarrow> [[c]] | l # ls \<Rightarrow> (c # l) # ls))"

text \<open>
  \<open>textwrap.dedent(text)\<close>: lines of blanks and tabs only become empty; the margin is the
  longest run of blanks and tabs that starts every other non-empty line; the margin is
  removed from the start of each line that has it.
\<close>

definition is_blank :: "char \<Rightarrow> bool" where
  "is_blank c \<longleftrightarrow> c = CHR '' '' \<or> c = CHR 0x09"

fun common_prefix :: "string \<Rightarrow> string \<Rightarrow> string" where
  "common_prefix (x # xs) (y # ys) = (if x = y then x # common_prefix xs ys else [])"
| "common_prefix xs ys = []"

definition margin_of :: "string list \<Rightarrow> string" where
  "margin_of ls =
     (case map (takeWhile is_blank) (filter (\<lambda>l. l \<noteq> []) ls) of
        [] \<Rightarrow> []
      | i # is \<Rightarrow> foldl common_prefix i is)"

definition dedent :: "string \<Rightarrow> string" where
  "dedent text =
     (let ls = map (\<lambda>l. if list_all is_blank l then [] else l) (split_nl text);
          margin = margin_of ls
      in join ''\<newline>''
           (map (\<lambda>l. if startswith l margin then drop (length margin) l else l) ls))"

text \<open>\<open>s.strip()\<close>: white space is removed from both ends.\<close>

definition isspace :: "char \<Rightarrow> bool" where
  "isspace c \<longleftrightarrow>
     c \<in> {CHR '' '', CHR 0x09, CHR ''\<newline>'', CHR 0x0B, CHR 0x0C, CHR 0x0D,
          CHR 0x1C, CHR 0x1D, CHR 0x1E, CHR 0x1F}"

definition strip :: "string \<Rightarrow> string" where
  "strip s = rev (dropWhile isspace (rev (dropWhile isspace s)))"

subsection \<open>The interpreter and the process\<close>

text \<open>
  \<open>sys.version_info\<close> is a tuple of five components; \<open>sys.hexversion\<close> is the same
  version as one integer, which the interpreter provides on its own.
\<close>

record version_tuple =
  major :: int
  minor :: int
  micro :: int
  releaselevel :: string
  serial :: int

text \<open>\<open>sys.version_info[:3]\<close>.\<close>

definition first3 :: "version_tuple \<Rightarrow> int list" where
  "first3 v = [major v, minor v, micro v]"

text \<open>
  How CPython packs a version into \<open>sys.hexversion\<close>: one byte each for major, minor
  and micro, four bits for the release level (\<open>0xA\<close> alpha, \<open>0xB\<close> beta, \<open>0xC\<close>
  candidate, \<open>0xF\<close> final) and four bits for the serial. The module never computes
  this; it is here to relate the integer that \<open>check_python_version\<close> tests to the
  version that it prints.
\<close>

definition release_code :: "string \<Rightarrow> int" where
  "release_code l =
     (if l = ''alpha'' then 0xA else if l = ''beta'' then 0xB
      else if l = ''candidate'' then 0xC else 0xF)"

definition hexversion_of :: "version_tuple \<Rightarrow> int" where
  "hexversion_of v =
     major v * 0x1000000 + minor v * 0x10000 + micro v * 0x100 +
     release_code (releaselevel v) * 0x10 + serial v"

record host =
  hexversion :: int
  version_info :: version_tuple
  platform :: string
  argv :: "string list"
  stderr_is_None :: bool
  importable :: "string set"
  signal_has_SIGUSR1 :: bool
  faulthandler_has_register :: bool

datatype signal = SIGUSR1

datatype icon = NoIcon | Information | Warning | Critical | Question

text \<open>
  What a function does to the world outside the interpreter, in the order it does it:
  \<^item> \<open>Print s\<close>: \<open>print(s)\<close>, the text \<open>s\<close> and a line end on standard output;
  \<^item> \<open>PrintExc\<close>: \<open>traceback.print_exc()\<close>, called with no \<open>file\<close> argument, so that
    the traceback of the exception being handled is written to \<open>sys.stderr\<close>;
  \<^item> \<open>FaulthandlerEnable\<close>, \<open>FaulthandlerRegister sig\<close>: the calls
    \<open>faulthandler.enable()\<close> and \<open>faulthandler.register(sig)\<close>;
  \<^item> \<open>NewQApplication args\<close>: \<open>QApplication(args)\<close>; the call is taken to leave the
    list \<open>sys.argv\<close> as it is (for arguments that Qt takes for itself, such as
    \<open>-style\<close> and the argument after it, PyQt removes them from the list);
  \<^item> \<open>NewQMessageBox icon title text\<close>: \<open>QMessageBox(icon, title, text)\<close>;
  \<^item> \<open>MsgboxResizeToHint\<close>: \<open>msgbox.resize(msgbox.sizeHint())\<close>;
  \<^item> \<open>MsgboxExec\<close>: \<open>msgbox.exec_()\<close>, which shows the dialog and blocks until it is closed;
  \<^item> \<open>AppQuit\<close>: \<open>app.quit()\<close>.
\<close>

datatype effect =
    Print string
  | PrintExc
  | FaulthandlerEnable
  | FaulthandlerRegister signal
  | NewQApplication "string list"
  | NewQMessageBox icon string string
  | MsgboxResizeToHint
  | MsgboxExec
  | AppQuit

datatype exc =
    ImportError string
  | RuntimeError string
  | AttributeError string
  | ValueError string

text \<open>
  How a call ends: it returns to its caller, it leaves the process through
  \<open>sys.exit(code)\<close>, or an exception that nothing in the module catches goes up.
\<close>

datatype outcome = Returned | Exited int | Raised exc

record world =
  environ :: "string \<rightharpoonup> string"
  trace :: "effect list"

definition emit :: "effect \<Rightarrow> world \<Rightarrow> world" where
  "emit e w = w\<lparr>trace := trace w @ [e]\<rparr>"

text \<open>
  The text that a trace puts on standard output, in a process that has its standard
  streams: \<open>print\<close> writes there, \<open>traceback.print_exc()\<close> does not.
\<close>

fun stdout_of :: "effect list \<Rightarrow> string" where
  "stdout_of [] = []"
| "stdout_of (Print s # es) = s @ ''\<newline>'' @ stdout_of es"
| "stdout_of (e # es) = stdout_of es"

text \<open>
  The text that a trace puts on standard error in such a process, where \<open>tb\<close> is the
  traceback that \<open>traceback.print_exc()\<close> formats for the exception being handled.
  Where \<open>sys.stderr\<close> is \<open>None\<close> there is no such stream, and where the traceback
  ends up is left to the Python version at hand.
\<close>

fun stderr_of :: "string \<Rightarrow> effect list \<Rightarrow> string" where
  "stderr_of tb [] = []"
| "stderr_of tb (PrintExc # es) = tb @ stderr_of tb es"
| "stderr_of tb (e # es) = stderr_of tb es"

text \<open>The calls into Qt's widgets that a trace holds.\<close>

fun is_gui :: "effect \<Rightarrow> bool" where
  "is_gui (NewQApplication args) = True"
| "is_gui (NewQMessageBox i t m) = True"
| "is_gui MsgboxResizeToHint = True"
| "is_gui MsgboxExec = True"
| "is_gui AppQuit = True"
| "is_gui e = False"

subsection \<open>\<open>check_python_version\<close>\<close>

definition version_message :: string where
  "version_message =
     ''Fatal error: At least Python 3.3 is required to run '' @
     ''qutebrowser, but {} is installed!''"

text \<open>
  The function is meant for interpreters older than the program needs, so what
  \<open>template.format(arg)\<close> does depends on the interpreter that runs it. Strings have a
  method \<open>format\<close> from Python 2.6 on; before that the attribute lookup ends in an
  \<open>AttributeError\<close> (it carries the name of the attribute). A replacement field without an index, \<open>{}\<close>, is accepted by
  Python 2.7 and from Python 3.1 on; Python 2.6 and 3.0 raise
  \<open>ValueError: zero length field name in format\<close>.
\<close>

definition has_str_format :: "version_tuple \<Rightarrow> bool" where
  "has_str_format v \<longleftrightarrow> (major v = 2 \<and> 6 \<le> minor v) \<or> 3 \<le> major v"

definition has_auto_numbering :: "version_tuple \<Rightarrow> bool" where
  "has_auto_numbering v \<longleftrightarrow>
     (major v = 2 \<and> 7 \<le> minor v) \<or> (major v = 3 \<and> 1 \<le> minor v) \<or> 4 \<le> major v"

definition str_format :: "version_tuple \<Rightarrow> string \<Rightarrow> string \<Rightarrow> exc + string" where
  "str_format v template a =
     (if \<not> has_str_format v
      then Inl (AttributeError ''format'')
      else if \<not> has_auto_numbering v
      then Inl (ValueError ''zero length field name in format'')
      else Inr (format1 template a))"

text \<open>
  An exception raised by \<open>format\<close> leaves the function before \<open>print\<close> and before
  \<open>sys.exit\<close>.
\<close>

definition check_python_version :: "host \<Rightarrow> world \<Rightarrow> outcome \<times> world" where
  "check_python_version h w =
     (if hexversion h < 0x03030000 then
        (case str_format (version_info h) version_message
                (join ''.'' (map str (first3 (version_info h)))) of
           Inl e \<Rightarrow> (Raised e, w)
         | Inr s \<Rightarrow> (Exited 1, emit (Print s) w))
      else (Returned, w))"

subsection \<open>\<open>init_faulthandler\<close>\<close>

text \<open>
  \<open>faulthandler.enable()\<close> takes \<open>sys.stderr\<close> as the file to write to. The comment in
  \<open>init_faulthandler\<close> records what the call does when \<open>sys.stderr\<close> is \<open>None\<close>: it
  ends in an exception (a \<open>RuntimeError\<close>). The call itself is in the trace either way.
\<close>

definition faulthandler_enable :: "host \<Rightarrow> world \<Rightarrow> outcome \<times> world" where
  "faulthandler_enable h w =
     (if stderr_is_None h
      then (Raised (RuntimeError ''sys.stderr is None''), emit FaulthandlerEnable w)
      else (Returned, emit FaulthandlerEnable w))"

definition init_faulthandler :: "host \<Rightarrow> world \<Rightarrow> outcome \<times> world" where
  "init_faulthandler h w =
     (if ''faulthandler'' \<notin> importable h then (Raised (ImportError ''faulthandler''), w)
      else if \<not> signal_has_SIGUSR1 h then (Raised (ImportError ''SIGUSR1''), w)
      else if \<not> stderr_is_None h then (Returned, w)
      else (case faulthandler_enable h w of
              (Returned, w1) \<Rightarrow>
                (if faulthandler_has_register h
                 then (Returned, emit (FaulthandlerRegister SIGUSR1) w1)
                 else (Returned, w1))
            | (r, w1) \<Rightarrow> (r, w1)))"

subsection \<open>\<open>fix_harfbuzz\<close>\<close>

definition fix_harfbuzz :: "host \<Rightarrow> world \<Rightarrow> outcome \<times> world" where
  "fix_harfbuzz h w =
     (if startswith (platform h) ''linux''
      then (Returned, w\<lparr>environ := (environ w)(''QT_HARFBUZZ'' \<mapsto> ''old'')\<rparr>)
      else (Returned, w))"

subsection \<open>\<open>check_pyqt_core\<close>\<close>

definition pyqt_core_text :: string where
  "pyqt_core_text =
     ''\<newline>'' @
     ''            Fatal error: PyQt5 is required to run qutebrowser but could not\<newline>'' @
     ''            be imported! Maybe it's not installed?\<newline>'' @
     ''\<newline>'' @
     ''            On Debian:\<newline>'' @
     ''                apt-get install python3-pyqt5 python3-pyqt5.qtwebkit\<newline>'' @
     ''\<newline>'' @
     ''            On Archlinux:\<newline>'' @
     ''                pacman -S python-pyqt5 qt5-webkit\<newline>'' @
     ''                or install the qutebrowser package from AUR\<newline>'' @
     ''\<newline>'' @
     ''            On Windows:\<newline>'' @
     ''                Use the installer by Riverbank computing or the standalone\<newline>'' @
     ''                qutebrowser exe.\<newline>'' @
     ''\<newline>'' @
     ''                http://www.riverbankcomputing.co.uk/software/pyqt/download5\<newline>'' @
     ''\<newline>'' @
     ''            For other distributions:\<newline>'' @
     ''                Check your package manager for similiarly named packages.\<newline>'' @
     ''            ''"

text \<open>
  The two lines under \<open>if '--debug' in sys.argv\<close>, the same in both gates: an empty
  \<open>print()\<close> and \<open>traceback.print_exc()\<close>.
\<close>

definition debug_trace :: "host \<Rightarrow> world \<Rightarrow> world" where
  "debug_trace h w =
     (if ''--debug'' \<in> set (argv h) then emit PrintExc (emit (Print []) w) else w)"

definition check_pyqt_core :: "host \<Rightarrow> world \<Rightarrow> outcome \<times> world" where
  "check_pyqt_core h w =
     (if ''PyQt5.QtCore'' \<in> importable h then (Returned, w)
      else (Exited 1, debug_trace h (emit (Print (strip (dedent pyqt_core_text))) w)))"

subsection \<open>\<open>check_pyqt_webkit\<close>\<close>

definition pyqt_webkit_text :: string where
  "pyqt_webkit_text =
     ''\<newline>'' @
     ''            Fatal error: QtWebKit is required to run qutebrowser but could not\<newline>'' @
     ''            be imported! Maybe it's not installed?\<newline>'' @
     ''\<newline>'' @
     ''            On Debian:\<newline>'' @
     ''                apt-get install python3-pyqt5.qtwebkit\<newline>'' @
     ''\<newline>'' @
     ''            On Archlinux:\<newline>'' @
     ''                pacman -S qt5-webkit\<newline>'' @
     ''\<newline>'' @
     ''            For other distributions:\<newline>'' @
     ''                Check your package manager for similiarly named packages.\<newline>'' @
     ''            ''"

definition check_pyqt_webkit :: "host \<Rightarrow> world \<Rightarrow> outcome \<times> world" where
  "check_pyqt_webkit h w =
     (if ''PyQt5.QtWidgets'' \<notin> importable h
      then (Raised (ImportError ''PyQt5.QtWidgets''), w)
      else if ''PyQt5.QtWebKit'' \<in> importable h then (Returned, w)
      else
        (let w1 = emit (NewQApplication (argv h)) w;
             w2 = emit (NewQMessageBox Critical ''qutebrowser: Fatal error!''
                          (strip (dedent pyqt_webkit_text))) w1;
             w3 = debug_trace h w2;
             w4 = emit MsgboxResizeToHint w3;
             w5 = emit MsgboxExec w4;
             w6 = emit AppQuit w5
         in (Returned, w6)))"

subsection \<open>What a call adds, and the inputs used as examples\<close>

text \<open>The effects that the call \<open>f h w\<close> adds to the trace of \<open>w\<close>.\<close>

definition effects_of ::
  "(host \<Rightarrow> world \<Rightarrow> outcome \<times> world) \<Rightarrow> host \<Rightarrow> world \<Rightarrow> effect list" where
  "effects_of f h w = drop (length (trace w)) (trace (snd (f h w)))"

text \<open>The texts of the two gates after \<open>textwrap.dedent\<close> and \<open>strip\<close>.\<close>

definition pyqt_core_message :: string where
  "pyqt_core_message =
     ''Fatal error: PyQt5 is required to run qutebrowser but could not\<newline>'' @
     ''be imported! Maybe it's not installed?\<newline>'' @
     ''\<newline>'' @
     ''On Debian:\<newline>'' @
     ''    apt-get install python3-pyqt5 python3-pyqt5.qtwebkit\<newline>'' @
     ''\<newline>'' @
     ''On Archlinux:\<newline>'' @
     ''    pacman -S python-pyqt5 qt5-webkit\<newline>'' @
     ''    or install the qutebrowser package from AUR\<newline>'' @
     ''\<newline>'' @
     ''On Windows:\<newline>'' @
     ''    Use the installer by Riverbank computing or the standalone\<newline>'' @
     ''    qutebrowser exe.\<newline>'' @
     ''\<newline>'' @
     ''    http://www.riverbankcomputing.co.uk/software/pyqt/download5\<newline>'' @
     ''\<newline>'' @
     ''For other distributions:\<newline>'' @
     ''    Check your package manager for similiarly named packages.''"

definition pyqt_webkit_message :: string where
  "pyqt_webkit_message =
     ''Fatal error: QtWebKit is required to run qutebrowser but could not\<newline>'' @
     ''be imported! Maybe it's not installed?\<newline>'' @
     ''\<newline>'' @
     ''On Debian:\<newline>'' @
     ''    apt-get install python3-pyqt5.qtwebkit\<newline>'' @
     ''\<newline>'' @
     ''On Archlinux:\<newline>'' @
     ''    pacman -S qt5-webkit\<newline>'' @
     ''\<newline>'' @
     ''For other distributions:\<newline>'' @
     ''    Check your package manager for similiarly named packages.''"

text \<open>
  A host where everything is in place: Python 3.4.0 on Linux with a console, started
  as \<open>qutebrowser\<close> with no argument, all of PyQt5 installed.
\<close>

definition good_host :: host where
  "good_host =
     \<lparr>hexversion = 0x030400F0,
      version_info = \<lparr>major = 3, minor = 4, micro = 0, releaselevel = ''final'', serial = 0\<rparr>,
      platform = ''linux'',
      argv = [''qutebrowser''],
      stderr_is_None = False,
      importable = {''faulthandler'', ''PyQt5.QtCore'', ''PyQt5.QtWidgets'', ''PyQt5.QtWebKit''},
      signal_has_SIGUSR1 = True,
      faulthandler_has_register = True\<rparr>"

text \<open>Python 3.2.0 (final release), whose \<open>sys.hexversion\<close> is \<open>0x030200F0\<close>.\<close>

definition py320_host :: host where
  "py320_host =
     good_host\<lparr>hexversion := 0x030200F0,
               version_info :=
                 \<lparr>major = 3, minor = 2, micro = 0, releaselevel = ''final'', serial = 0\<rparr>\<rparr>"

text \<open>Python 2.6.9 (final release), whose \<open>sys.hexversion\<close> is \<open>0x020609F0\<close>.\<close>

definition py269_host :: host where
  "py269_host =
     good_host\<lparr>hexversion := 0x020609F0,
               version_info :=
                 \<lparr>major = 2, minor = 6, micro = 9, releaselevel = ''final'', serial = 0\<rparr>\<rparr>"

text \<open>PyQt5 is not installed at all.\<close>

definition no_pyqt_host :: host where
  "no_pyqt_host = good_host\<lparr>importable := {''faulthandler''}\<rparr>"

text \<open>PyQt5 is installed without its QtWebKit module.\<close>

definition no_webkit_host :: host where
  "no_webkit_host =
     good_host\<lparr>importable := {''faulthandler'', ''PyQt5.QtCore'', ''PyQt5.QtWidgets''}\<rparr>"

text \<open>The same two hosts when the program is started as \<open>qutebrowser --debug\<close>.\<close>

definition no_pyqt_debug_host :: host where
  "no_pyqt_debug_host = no_pyqt_host\<lparr>argv := [''qutebrowser'', ''--debug'']\<rparr>"

definition no_webkit_debug_host :: host where
  "no_webkit_debug_host = no_webkit_host\<lparr>argv := [''qutebrowser'', ''--debug'']\<rparr>"

text \<open>A process with an empty environment that has done nothing yet.\<close>

definition fresh_world :: world where
  "fresh_world = \<lparr>environ = Map.empty, trace = []\<rparr>"

section \<open>Properties\<close>

subsection \<open>The string operations are the usual ones\<close>

lemma startswith_prefix: "startswith s p \<longleftrightarrow> prefix p s"
  by (induction s p rule: startswith.induct) auto

lemma contains_sublist: "contains s t \<longleftrightarrow> sublist t s"
  by (induction s) (auto simp: startswith_prefix sublist_Cons_right)

lemma startswith_append: "startswith (p @ r) p"
  by (simp add: startswith_prefix)

lemma format1_version_message:
  "format1 version_message a =
     ''Fatal error: At least Python 3.3 is required to run qutebrowser, but '' @ a @
     '' is installed!''"
  by (simp add: version_message_def)

text \<open>The two texts, dedented and stripped, are the ones written out above.\<close>

lemma pyqt_core_message_eq: "strip (dedent pyqt_core_text) = pyqt_core_message"
  by code_simp

lemma pyqt_webkit_message_eq: "strip (dedent pyqt_webkit_text) = pyqt_webkit_message"
  by code_simp

subsection \<open>The version as one integer\<close>

lemma release_code_range: "0 \<le> release_code l \<and> release_code l < 16"
  by (simp add: release_code_def)

text \<open>
  Below \<open>0x03030000\<close> are exactly the versions before 3.3, whatever their micro
  version, release level and serial.
\<close>

lemma hexversion_of_below:
  assumes "0 \<le> minor v" "minor v < 256" "0 \<le> micro v" "micro v < 256"
    "0 \<le> serial v" "serial v < 16"
  shows "hexversion_of v < 0x03030000 \<longleftrightarrow> major v < 3 \<or> (major v = 3 \<and> minor v < 3)"
  using assms release_code_range [of "releaselevel v"]
  unfolding hexversion_of_def by auto

lemma example_hosts_hexversion:
  "hexversion good_host = hexversion_of (version_info good_host)"
  "hexversion py320_host = hexversion_of (version_info py320_host)"
  "hexversion py269_host = hexversion_of (version_info py269_host)"
  by (simp_all add: py320_host_def py269_host_def good_host_def hexversion_of_def
      release_code_def)

subsection \<open>What the failing gates add to the trace\<close>

lemma effects_of_append:
  "snd (f h w) = w\<lparr>trace := trace w @ es\<rparr> \<Longrightarrow> effects_of f h w = es"
  by (simp add: effects_of_def)

lemma debug_trace_eq:
  "debug_trace h w =
     w\<lparr>trace := trace w @ (if ''--debug'' \<in> set (argv h) then [Print [], PrintExc] else [])\<rparr>"
  by (simp add: debug_trace_def emit_def)

lemma check_pyqt_core_snd:
  "''PyQt5.QtCore'' \<notin> importable h \<Longrightarrow>
   snd (check_pyqt_core h w) =
     w\<lparr>trace := trace w @ (Print pyqt_core_message #
            (if ''--debug'' \<in> set (argv h) then [Print [], PrintExc] else []))\<rparr>"
  by (simp add: check_pyqt_core_def debug_trace_eq emit_def pyqt_core_message_eq)


subsection \<open>The extension gate\<close>

text \<open>
  C1. With PyQt5's core and widgets installed and QtWebKit missing,
  \<open>check_pyqt_webkit\<close> is claimed to show a modal critical dialog and then to end the
  process with exit code 1, never returning to its caller. The dialog is shown, but the
  function has no \<open>sys.exit\<close>: after \<open>app.quit()\<close> it returns. Evaluated on a host
  without QtWebKit: a \<open>QApplication\<close> and a critical \<open>QMessageBox\<close> are made, the box
  is sized and run, the application is quit, and the outcome is \<open>Returned\<close>.
\<close>

theorem check_pyqt_webkit_missing_returns:
  "check_pyqt_webkit no_webkit_host fresh_world =
     (Returned,
      fresh_world\<lparr>trace :=
        [NewQApplication [''qutebrowser''],
         NewQMessageBox Critical ''qutebrowser: Fatal error!'' pyqt_webkit_message,
         MsgboxResizeToHint, MsgboxExec, AppQuit]\<rparr>)"
  by (simp add: check_pyqt_webkit_def no_webkit_host_def good_host_def fresh_world_def
      debug_trace_def emit_def pyqt_webkit_message_eq Let_def)

subsection \<open>The fault handler\<close>

text \<open>
  C2. \<open>init_faulthandler\<close> is claimed never to raise, and to enable nothing and
  register nothing when \<open>sys.stderr\<close> is \<open>None\<close>. The test in the code is the other
  way round: it returns early when \<open>sys.stderr\<close> is not \<open>None\<close>. Evaluated with
  \<open>sys.stderr = None\<close>, the call \<open>faulthandler.enable()\<close> is made and ends in the
  exception that the function's own comment describes; evaluated with a console, nothing
  is enabled at all.
\<close>

theorem init_faulthandler_inverted:
  "init_faulthandler (good_host\<lparr>stderr_is_None := True\<rparr>) fresh_world =
     (Raised (RuntimeError ''sys.stderr is None''), fresh_world\<lparr>trace := [FaulthandlerEnable]\<rparr>) \<and>
   init_faulthandler good_host fresh_world = (Returned, fresh_world)"
  by (simp add: init_faulthandler_def faulthandler_enable_def good_host_def fresh_world_def
      emit_def)

subsection \<open>One exit code for every gate\<close>

text \<open>
  C3. Every gate is claimed to end the process with the same exit code on failure, and
  to fall through when it passes. The version gate, on Python 3.2.0, and the core gate
  leave with \<open>sys.exit(1)\<close>; the extension gate, failing, returns to its caller instead (here with
  \<open>--debug\<close> on the command line). On a host where everything is in place the three
  gates return and change nothing.
\<close>

theorem gate_failure_outcomes:
  "fst (check_python_version py320_host fresh_world) = Exited 1 \<and>
   fst (check_pyqt_core no_pyqt_host fresh_world) = Exited 1 \<and>
   fst (check_pyqt_webkit no_webkit_debug_host fresh_world) = Returned \<and>
   check_python_version good_host fresh_world = (Returned, fresh_world) \<and>
   check_pyqt_core good_host fresh_world = (Returned, fresh_world) \<and>
   check_pyqt_webkit good_host fresh_world = (Returned, fresh_world)"
  by (simp add: check_python_version_def str_format_def has_str_format_def
      has_auto_numbering_def check_pyqt_core_def check_pyqt_webkit_def
      py320_host_def no_pyqt_host_def no_webkit_debug_host_def no_webkit_host_def
      good_host_def Let_def)

subsection \<open>The harfbuzz patch\<close>

text \<open>
  C4. \<open>fix_harfbuzz\<close> sets \<open>QT_HARFBUZZ\<close> to \<open>old\<close> if and only if \<open>sys.platform\<close>
  starts with \<open>linux\<close>, and leaves the environment as it is on every other platform.
  The function always returns. On Linux the variable is \<open>old\<close> afterwards and no other
  variable changes; elsewhere the whole world is unchanged; and, for an environment
  where the variable was not \<open>old\<close> already, it is \<open>old\<close> afterwards exactly on Linux.
\<close>

theorem fix_harfbuzz_linux_only:
  "fst (fix_harfbuzz h w) = Returned \<and>
   (prefix ''linux'' (platform h) \<longrightarrow>
      environ (snd (fix_harfbuzz h w)) ''QT_HARFBUZZ'' = Some ''old'' \<and>
      (\<forall>k. k \<noteq> ''QT_HARFBUZZ'' \<longrightarrow> environ (snd (fix_harfbuzz h w)) k = environ w k) \<and>
      trace (snd (fix_harfbuzz h w)) = trace w) \<and>
   (\<not> prefix ''linux'' (platform h) \<longrightarrow> snd (fix_harfbuzz h w) = w) \<and>
   (environ w ''QT_HARFBUZZ'' \<noteq> Some ''old'' \<longrightarrow>
      (environ (snd (fix_harfbuzz h w)) ''QT_HARFBUZZ'' = Some ''old''
         \<longleftrightarrow> prefix ''linux'' (platform h)))"
  by (simp add: fix_harfbuzz_def startswith_prefix)

text \<open>On \<open>linux\<close> with an empty environment, and on \<open>win32\<close>.\<close>

theorem fix_harfbuzz_linux_only_witness:
  "prefix ''linux'' (platform good_host) \<and>
   \<not> prefix ''linux'' (platform (good_host\<lparr>platform := ''win32''\<rparr>)) \<and>
   environ fresh_world ''QT_HARFBUZZ'' \<noteq> Some ''old'' \<and>
   environ (snd (fix_harfbuzz good_host fresh_world)) ''QT_HARFBUZZ'' = Some ''old'' \<and>
   snd (fix_harfbuzz (good_host\<lparr>platform := ''win32''\<rparr>) fresh_world) = fresh_world"
  using fix_harfbuzz_linux_only [of good_host fresh_world]
    fix_harfbuzz_linux_only [of "good_host\<lparr>platform := ''win32''\<rparr>" fresh_world]
  by (simp add: good_host_def fresh_world_def)

text \<open>
  C9. \<open>fix_harfbuzz\<close> is idempotent: run on its own result it gives that result again,
  for every environment and platform; and on Linux whatever value \<open>QT_HARFBUZZ\<close> had is
  replaced by \<open>old\<close>.
\<close>

theorem fix_harfbuzz_idempotent:
  "fix_harfbuzz h (snd (fix_harfbuzz h w)) = fix_harfbuzz h w \<and>
   (prefix ''linux'' (platform h) \<longrightarrow>
      (\<forall>v. environ w ''QT_HARFBUZZ'' = Some v \<longrightarrow>
           environ (snd (fix_harfbuzz h w)) ''QT_HARFBUZZ'' = Some ''old''))"
  by (simp add: fix_harfbuzz_def startswith_prefix)

text \<open>On Linux, starting with \<open>QT_HARFBUZZ=new\<close>.\<close>

theorem fix_harfbuzz_idempotent_witness:
  "prefix ''linux'' (platform good_host) \<and>
   environ (fresh_world\<lparr>environ := [''QT_HARFBUZZ'' \<mapsto> ''new'']\<rparr>) ''QT_HARFBUZZ'' = Some ''new'' \<and>
   environ (snd (fix_harfbuzz good_host (fresh_world\<lparr>environ := [''QT_HARFBUZZ'' \<mapsto> ''new'']\<rparr>)))
     ''QT_HARFBUZZ'' = Some ''old'' \<and>
   fix_harfbuzz good_host
     (snd (fix_harfbuzz good_host (fresh_world\<lparr>environ := [''QT_HARFBUZZ'' \<mapsto> ''new'']\<rparr>)))
     = fix_harfbuzz good_host (fresh_world\<lparr>environ := [''QT_HARFBUZZ'' \<mapsto> ''new'']\<rparr>)"
  using fix_harfbuzz_idempotent
    [of good_host "fresh_world\<lparr>environ := [''QT_HARFBUZZ'' \<mapsto> ''new'']\<rparr>"]
  by (simp add: good_host_def fresh_world_def)

subsection \<open>The version gate\<close>

text \<open>
  What the gate does, by the interpreter that runs it: it returns from \<open>0x03030000\<close>
  on; below, it fails in \<open>format\<close> where strings have no such method or where
  \<open>{}\<close> is refused, and prints its message and leaves with exit code 1 otherwise.
\<close>

lemma check_python_version_cases:
  "check_python_version h w =
     (if 0x03030000 \<le> hexversion h then (Returned, w)
      else if \<not> has_str_format (version_info h)
      then (Raised (AttributeError ''format''), w)
      else if \<not> has_auto_numbering (version_info h)
      then (Raised (ValueError ''zero length field name in format''), w)
      else
        (Exited 1,
         w\<lparr>trace := trace w @
            [Print (''Fatal error: At least Python 3.3 is required to run qutebrowser, but '' @
                    str (major (version_info h)) @ ''.'' @ str (minor (version_info h)) @ ''.'' @
                    str (micro (version_info h)) @ '' is installed!'')]\<rparr>))"
  by (simp add: check_python_version_def str_format_def emit_def format1_version_message
      first3_def)

text \<open>Python 3.2.0 is turned away with the message; Python 3.4.0 passes.\<close>

lemma check_python_version_examples:
  "check_python_version py320_host fresh_world =
     (Exited 1,
      fresh_world\<lparr>trace :=
        [Print ''Fatal error: At least Python 3.3 is required to run qutebrowser, but 3.2.0 is installed!'']\<rparr>)"
  "check_python_version good_host fresh_world = (Returned, fresh_world)"
  by (simp_all add: check_python_version_cases has_str_format_def has_auto_numbering_def
      py320_host_def good_host_def fresh_world_def str_def)

text \<open>
  C5. For every version below the minimum, \<open>check_python_version\<close> is claimed to print
  a failure message and to end the process with exit code 1, and the comment above the
  function says that the code should run with python2 and python3. The message is
  built with a replacement field \<open>{}\<close> that has no index, which Python 2.6 and 3.0
  refuse. Evaluated on Python 2.6.9, a version below the minimum: the call to
  \<open>format\<close> raises \<open>ValueError\<close>, nothing is printed and \<open>sys.exit\<close> is not reached.
\<close>

theorem check_python_version_py26_raises:
  "hexversion py269_host < 0x03030000 \<and>
   check_python_version py269_host fresh_world =
     (Raised (ValueError ''zero length field name in format''), fresh_world)"
  by (simp add: check_python_version_def str_format_def has_str_format_def
      has_auto_numbering_def py269_host_def good_host_def)

text \<open>
  C7, as amended. When the version is 3.2.0, the text on standard output contains
  \<open>3.2.0\<close> and names the minimum as the message writes it, \<open>3.3\<close>, and the process
  ends with exit code 1.
\<close>

theorem check_python_version_320:
  "hexversion h < 0x03030000 \<and> first3 (version_info h) = [3, 2, 0] \<longrightarrow>
     contains (stdout_of (effects_of check_python_version h w)) ''3.2.0'' \<and>
     contains (stdout_of (effects_of check_python_version h w)) ''3.3'' \<and>
     fst (check_python_version h w) = Exited 1"
proof
  assume a: "hexversion h < 0x03030000 \<and> first3 (version_info h) = [3, 2, 0]"
  then have v: "has_str_format (version_info h)" "has_auto_numbering (version_info h)"
    by (simp_all add: first3_def has_str_format_def has_auto_numbering_def)
  from a v have "stdout_of (effects_of check_python_version h w) =
          ''Fatal error: At least Python 3.3 is required to run qutebrowser, but 3.2.0 is installed!\<newline>''"
    by (simp add: effects_of_def check_python_version_def str_format_def emit_def
        format1_version_message str_def)
  moreover have
    "contains ''Fatal error: At least Python 3.3 is required to run qutebrowser, but 3.2.0 is installed!\<newline>''
        ''3.2.0''"
    by code_simp
  moreover have
    "contains ''Fatal error: At least Python 3.3 is required to run qutebrowser, but 3.2.0 is installed!\<newline>''
        ''3.3''"
    by code_simp
  moreover have "fst (check_python_version h w) = Exited 1"
    using a v by (simp add: check_python_version_def str_format_def)
  ultimately show
    "contains (stdout_of (effects_of check_python_version h w)) ''3.2.0'' \<and>
     contains (stdout_of (effects_of check_python_version h w)) ''3.3'' \<and>
     fst (check_python_version h w) = Exited 1"
    by simp
qed

theorem check_python_version_320_witness:
  "hexversion py320_host < 0x03030000 \<and> first3 (version_info py320_host) = [3, 2, 0] \<and>
   contains (stdout_of (effects_of check_python_version py320_host fresh_world)) ''3.2.0'' \<and>
   contains (stdout_of (effects_of check_python_version py320_host fresh_world)) ''3.3'' \<and>
   fst (check_python_version py320_host fresh_world) = Exited 1"
proof -
  have "hexversion py320_host < 0x03030000 \<and> first3 (version_info py320_host) = [3, 2, 0]"
    by (simp add: py320_host_def good_host_def first3_def)
  with check_python_version_320 [of py320_host fresh_world] show ?thesis
    by simp
qed

text \<open>
  C7 as stated asks for \<open>3.3.0\<close> in the output. The message says
  \<open>At least Python 3.3 is required\<close>: on Python 3.2.0 the text \<open>3.3.0\<close> is not in it.
\<close>

theorem check_python_version_320_counterexample:
  "\<not> (contains (stdout_of (effects_of check_python_version py320_host fresh_world)) ''3.2.0'' \<and>
      contains (stdout_of (effects_of check_python_version py320_host fresh_world)) ''3.3.0'' \<and>
      fst (check_python_version py320_host fresh_world) = Exited 1)"
proof -
  have "stdout_of (effects_of check_python_version py320_host fresh_world) =
          ''Fatal error: At least Python 3.3 is required to run qutebrowser, but 3.2.0 is installed!\<newline>''"
    by (simp add: effects_of_def check_python_version_def str_format_def has_str_format_def
        has_auto_numbering_def py320_host_def good_host_def fresh_world_def emit_def
        format1_version_message first3_def str_def)
  moreover have
    "\<not> contains ''Fatal error: At least Python 3.3 is required to run qutebrowser, but 3.2.0 is installed!\<newline>''
        ''3.3.0''"
    by code_simp
  ultimately show ?thesis by simp
qed

subsection \<open>The core gate\<close>

text \<open>
  C6. If \<open>PyQt5.QtCore\<close> cannot be imported, \<open>check_pyqt_core\<close> writes the remediation
  message to standard output and the process ends with exit code 1; nothing of the GUI
  is constructed on that path. The call only adds to the trace; what it adds puts the
  message and a line end first on standard output, and holds no call into Qt's widgets.
\<close>

theorem check_pyqt_core_missing:
  "''PyQt5.QtCore'' \<notin> importable h \<longrightarrow>
     fst (check_pyqt_core h w) = Exited 1 \<and>
     snd (check_pyqt_core h w) = w\<lparr>trace := trace w @ effects_of check_pyqt_core h w\<rparr> \<and>
     startswith (stdout_of (effects_of check_pyqt_core h w)) (pyqt_core_message @ ''\<newline>'') \<and>
     list_all (\<lambda>e. \<not> is_gui e) (effects_of check_pyqt_core h w)"
proof
  assume missing: "''PyQt5.QtCore'' \<notin> importable h"
  let ?es = "Print pyqt_core_message #
               (if ''--debug'' \<in> set (argv h) then [Print [], PrintExc] else [])"
  have run: "snd (check_pyqt_core h w) = w\<lparr>trace := trace w @ ?es\<rparr>"
    using missing by (rule check_pyqt_core_snd)
  then have es: "effects_of check_pyqt_core h w = ?es"
    by (rule effects_of_append)
  have "fst (check_pyqt_core h w) = Exited 1"
    using missing by (simp add: check_pyqt_core_def)
  moreover have "startswith (stdout_of ?es) (pyqt_core_message @ ''\<newline>'')"
    using startswith_append [of "pyqt_core_message @ ''\<newline>''"] by simp
  moreover have "list_all (\<lambda>e. \<not> is_gui e) ?es"
    by simp
  ultimately show
    "fst (check_pyqt_core h w) = Exited 1 \<and>
     snd (check_pyqt_core h w) = w\<lparr>trace := trace w @ effects_of check_pyqt_core h w\<rparr> \<and>
     startswith (stdout_of (effects_of check_pyqt_core h w)) (pyqt_core_message @ ''\<newline>'') \<and>
     list_all (\<lambda>e. \<not> is_gui e) (effects_of check_pyqt_core h w)"
    using run es by simp
qed

theorem check_pyqt_core_missing_witness:
  "''PyQt5.QtCore'' \<notin> importable no_pyqt_host \<and>
   fst (check_pyqt_core no_pyqt_host fresh_world) = Exited 1 \<and>
   startswith (stdout_of (effects_of check_pyqt_core no_pyqt_host fresh_world))
     (pyqt_core_message @ ''\<newline>'') \<and>
   list_all (\<lambda>e. \<not> is_gui e) (effects_of check_pyqt_core no_pyqt_host fresh_world)"
proof -
  have missing: "''PyQt5.QtCore'' \<notin> importable no_pyqt_host"
    by (simp add: no_pyqt_host_def good_host_def)
  with check_pyqt_core_missing [of no_pyqt_host fresh_world] show ?thesis
    by simp
qed

text \<open>
  C8, as amended. With \<open>--debug\<close> among the arguments and \<open>PyQt5.QtCore\<close> missing,
  \<open>check_pyqt_core\<close> prints the remediation message and an empty line on standard
  output, then calls \<open>traceback.print_exc()\<close>, whose traceback \<open>tb\<close> goes to standard
  error (the process having one), and the process ends with exit code 1.
\<close>

theorem check_pyqt_core_debug:
  "''--debug'' \<in> set (argv h) \<and> ''PyQt5.QtCore'' \<notin> importable h \<and> \<not> stderr_is_None h \<longrightarrow>
     check_pyqt_core h w =
       (Exited 1, w\<lparr>trace := trace w @ [Print pyqt_core_message, Print [], PrintExc]\<rparr>) \<and>
     stdout_of (effects_of check_pyqt_core h w) = pyqt_core_message @ ''\<newline>\<newline>'' \<and>
     stderr_of tb (effects_of check_pyqt_core h w) = tb"
proof
  assume a: "''--debug'' \<in> set (argv h) \<and> ''PyQt5.QtCore'' \<notin> importable h \<and> \<not> stderr_is_None h"
  then have run: "snd (check_pyqt_core h w) =
      w\<lparr>trace := trace w @ [Print pyqt_core_message, Print [], PrintExc]\<rparr>"
    using check_pyqt_core_snd [of h w] by simp
  then have es: "effects_of check_pyqt_core h w = [Print pyqt_core_message, Print [], PrintExc]"
    by (rule effects_of_append)
  have "fst (check_pyqt_core h w) = Exited 1"
    using a by (simp add: check_pyqt_core_def)
  with run have "check_pyqt_core h w =
      (Exited 1, w\<lparr>trace := trace w @ [Print pyqt_core_message, Print [], PrintExc]\<rparr>)"
    by (metis prod.collapse)
  with es show
    "check_pyqt_core h w =
       (Exited 1, w\<lparr>trace := trace w @ [Print pyqt_core_message, Print [], PrintExc]\<rparr>) \<and>
     stdout_of (effects_of check_pyqt_core h w) = pyqt_core_message @ ''\<newline>\<newline>'' \<and>
     stderr_of tb (effects_of check_pyqt_core h w) = tb"
    by simp
qed

theorem check_pyqt_core_debug_witness:
  "''--debug'' \<in> set (argv no_pyqt_debug_host) \<and>
   ''PyQt5.QtCore'' \<notin> importable no_pyqt_debug_host \<and>
   \<not> stderr_is_None no_pyqt_debug_host \<and>
   check_pyqt_core no_pyqt_debug_host fresh_world =
     (Exited 1, fresh_world\<lparr>trace := [Print pyqt_core_message, Print [], PrintExc]\<rparr>) \<and>
   stdout_of (effects_of check_pyqt_core no_pyqt_debug_host fresh_world) =
     pyqt_core_message @ ''\<newline>\<newline>'' \<and>
   stderr_of ''Traceback (most recent call last):''
     (effects_of check_pyqt_core no_pyqt_debug_host fresh_world) =
     ''Traceback (most recent call last):''"
proof -
  have "''--debug'' \<in> set (argv no_pyqt_debug_host) \<and>
      ''PyQt5.QtCore'' \<notin> importable no_pyqt_debug_host \<and>
      \<not> stderr_is_None no_pyqt_debug_host"
    by (simp add: no_pyqt_debug_host_def no_pyqt_host_def good_host_def)
  with check_pyqt_core_debug
    [of no_pyqt_debug_host fresh_world "''Traceback (most recent call last):''"]
  show ?thesis by (simp add: fresh_world_def)
qed

text \<open>
  C8 as stated puts the traceback on standard output. Started from a console as
  \<open>qutebrowser --debug\<close> without PyQt5, the gate prints the message and an empty line
  and hands the traceback to \<open>traceback.print_exc()\<close>: standard output is the message
  and two line ends, and the word \<open>Traceback\<close>, with which every traceback starts, is
  not in it.
\<close>

theorem check_pyqt_core_debug_counterexample:
  "\<not> stderr_is_None no_pyqt_debug_host \<and>
   effects_of check_pyqt_core no_pyqt_debug_host fresh_world =
     [Print pyqt_core_message, Print [], PrintExc] \<and>
   stdout_of (effects_of check_pyqt_core no_pyqt_debug_host fresh_world) =
     pyqt_core_message @ ''\<newline>\<newline>'' \<and>
   \<not> contains (stdout_of (effects_of check_pyqt_core no_pyqt_debug_host fresh_world))
       ''Traceback''"
proof -
  have missing: "''PyQt5.QtCore'' \<notin> importable no_pyqt_debug_host"
    by (simp add: no_pyqt_debug_host_def no_pyqt_host_def good_host_def)
  have debug: "''--debug'' \<in> set (argv no_pyqt_debug_host)"
    by (simp add: no_pyqt_debug_host_def)
  have es: "effects_of check_pyqt_core no_pyqt_debug_host fresh_world =
      [Print pyqt_core_message, Print [], PrintExc]"
    using check_pyqt_core_snd [OF missing, of fresh_world] debug
    by (simp add: effects_of_def)
  have console: "\<not> stderr_is_None no_pyqt_debug_host"
    by (simp add: no_pyqt_debug_host_def no_pyqt_host_def good_host_def)
  have "\<not> contains (pyqt_core_message @ ''\<newline>\<newline>'') ''Traceback''"
    by code_simp
  with es console show ?thesis by simp
qed

subsection \<open>The debug flag\<close>



end
